theory Spec2Isabelle
  imports Main "HOL-Library.Word"
begin

unbundle bit_operations_syntax

section \<open>The Raspberry Pi 7-inch touchscreen panel driver\<close>

text \<open>
  A shallow embedding of \<^verbatim>\<open>drivers/gpu/drm/panel/panel-raspberrypi-touchscreen.c\<close>:
  the four lifecycle callbacks, the mode enumeration, the backlight status callback and
  the probe function. Every C function that writes through a pointer becomes a function
  from the object pointed to onto the returned \<^verbatim>\<open>int\<close> and the object afterwards.
  Values of C type \<^verbatim>\<open>int\<close> that the driver only stores, compares and returns are
  \<^typ>\<open>int\<close>; the flag words it tests bitwise are \<^typ>\<open>32 word\<close>.
\<close>

subsection \<open>Constants of the kernel headers\<close>

text \<open>
  Modelled from the spec: \<^verbatim>\<open>linux/fb.h\<close> is not part of the driver's file. The
  backlight power value the spec calls "on" is \<^verbatim>\<open>FB_BLANK_UNBLANK\<close> and the one it
  calls "off (powered down)" is \<^verbatim>\<open>FB_BLANK_POWERDOWN\<close>; the numbers are those of
  the kernel's header.
\<close>

definition FB_BLANK_UNBLANK :: int where
  "FB_BLANK_UNBLANK = 0"

definition FB_BLANK_POWERDOWN :: int where
  "FB_BLANK_POWERDOWN = 4"

text \<open>
  Modelled from the spec: \<^verbatim>\<open>linux/backlight.h\<close> is not part of the driver's file.
  The spec's "suspended" and "blanked" flags are the bits \<^verbatim>\<open>BL_CORE_SUSPENDED = (1 << 0)\<close>
  and \<^verbatim>\<open>BL_CORE_FBBLANK = (1 << 1)\<close> of \<^verbatim>\<open>props.state\<close>.
\<close>

definition BL_CORE_SUSPENDED :: "32 word" where
  "BL_CORE_SUSPENDED = push_bit 0 1"

definition BL_CORE_FBBLANK :: "32 word" where
  "BL_CORE_FBBLANK = push_bit 1 1"

text \<open>
  Modelled from the spec: \<^verbatim>\<open>drm/drm_mode.h\<close> is not part of the driver's file. The
  spec's "preferred" mark is the bit \<^verbatim>\<open>DRM_MODE_TYPE_PREFERRED = (1 << 3)\<close> of a
  mode's type, its "driver-supplied" mark the bit \<^verbatim>\<open>DRM_MODE_TYPE_DRIVER = (1 << 6)\<close>.
\<close>

definition DRM_MODE_TYPE_PREFERRED :: "32 word" where
  "DRM_MODE_TYPE_PREFERRED = push_bit 3 1"

definition DRM_MODE_TYPE_DRIVER :: "32 word" where
  "DRM_MODE_TYPE_DRIVER = push_bit 6 1"

text \<open>
  Modelled from the spec: \<^verbatim>\<open>linux/errno.h\<close> is not part of the driver's file. The
  spec's "retry later" condition is \<^verbatim>\<open>EPROBE_DEFER\<close>; the driver returns error
  numbers negated.
\<close>

definition ENOMEM :: int where
  "ENOMEM = 12"

definition ENODEV :: int where
  "ENODEV = 19"

definition EPROBE_DEFER :: int where
  "EPROBE_DEFER = 517"

subsection \<open>The backlight device and its status callback\<close>

text \<open>
  \<^verbatim>\<open>struct backlight_device\<close>, reduced to the three fields of \<^verbatim>\<open>props\<close> the driver
  reads or writes. \<open>update_status_calls\<close> is not a field of the C struct: it counts the
  status refreshes requested from the device, so that a request is visible in the state.
\<close>

record backlight_device =
  props_brightness :: int
  props_power :: int
  props_state :: "32 word"
  update_status_calls :: nat

text \<open>
  \<^verbatim>\<open>rpi_touchscreen_backlight_update\<close>, lines 208 to 217. The body assigns only to its
  local variable \<^verbatim>\<open>brightness\<close>; the first function gives the return value, the
  device as the body leaves it, and the value the local variable holds at the
  \<^verbatim>\<open>return\<close>. The second is the callback as its caller sees it.
\<close>

definition rpi_touchscreen_backlight_update_body ::
  "backlight_device \<Rightarrow> int \<times> backlight_device \<times> int" where
  "rpi_touchscreen_backlight_update_body bl =
     (let brightness = props_brightness bl;
          brightness =
            (if props_power bl \<noteq> FB_BLANK_UNBLANK \<or>
                props_state bl AND (BL_CORE_SUSPENDED OR BL_CORE_FBBLANK) \<noteq> 0
             then 0 else brightness)
      in (0, bl, brightness))"

definition rpi_touchscreen_backlight_update ::
  "backlight_device \<Rightarrow> int \<times> backlight_device" where
  "rpi_touchscreen_backlight_update bl =
     (case rpi_touchscreen_backlight_update_body bl of
        (ret, bl', brightness) \<Rightarrow> (ret, bl'))"

text \<open>
  Modelled from the spec: \<^verbatim>\<open>backlight_update_status\<close> is an inline function of
  \<^verbatim>\<open>linux/backlight.h\<close>, not part of the driver's file. The spec describes it as a
  \<^verbatim>\<open>refreshStatus()\<close> request that recomputes the effective output with the status
  callback, which for a backlight of this driver is \<^verbatim>\<open>rpi_touchscreen_backlight_update\<close>
  (\<^verbatim>\<open>rpi_touchscreen_backlight_ops\<close>, lines 219 to 221); the request is counted on
  the device.
\<close>

definition backlight_update_status :: "backlight_device \<Rightarrow> int \<times> backlight_device" where
  "backlight_update_status bd =
     (case rpi_touchscreen_backlight_update bd of
        (ret, bd') \<Rightarrow> (ret, bd'\<lparr>update_status_calls := update_status_calls bd' + 1\<rparr>))"

subsection \<open>The panel and its lifecycle callbacks\<close>

text \<open>
  A pointer to the bridge's I2C client as the driver can hold it: \<^verbatim>\<open>NULL\<close>, an
  error number wrapped by \<^verbatim>\<open>ERR_PTR\<close>, or a pointer to a client.
\<close>

datatype i2c_client_ptr = NULL | ERR_PTR int | Client nat

text \<open>
  \<^verbatim>\<open>struct rpi_touchscreen\<close>, lines 62 to 73. The pointer \<^verbatim>\<open>backlight\<close> is the
  device it points to, \<open>None\<close> for \<^verbatim>\<open>NULL\<close>; the driver is the only writer the model
  sees. The embedded \<^verbatim>\<open>base\<close> is modelled apart (\<open>drm_panel\<close> below), since the
  lifecycle callbacks use it only to find the enclosing structure.
\<close>

record rpi_touchscreen =
  bridge_i2c :: i2c_client_ptr
  backlight :: "backlight_device option"
  prepared :: bool
  enabled :: bool

text \<open>
  The four callbacks, lines 106 to 171, in the order of the file. Each takes the panel
  and gives the returned \<^verbatim>\<open>int\<close> and the panel afterwards; the callers' view of the
  backlight is the device inside the panel. The \<^verbatim>\<open>pr_err\<close> at line 109 writes a line
  to the kernel log and nothing else; the log is not part of the model.
\<close>

definition rpi_touchscreen_disable :: "rpi_touchscreen \<Rightarrow> int \<times> rpi_touchscreen" where
  "rpi_touchscreen_disable ts =
     (if \<not> enabled ts then (0, ts)
      else
        let ts = (case backlight ts of
                    None \<Rightarrow> ts
                  | Some bl \<Rightarrow>
                      ts\<lparr>backlight := Some (snd (backlight_update_status
                                                 (bl\<lparr>props_power := FB_BLANK_POWERDOWN\<rparr>)))\<rparr>)
        in (0, ts\<lparr>enabled := False\<rparr>))"

definition rpi_touchscreen_unprepare :: "rpi_touchscreen \<Rightarrow> int \<times> rpi_touchscreen" where
  "rpi_touchscreen_unprepare ts =
     (if \<not> prepared ts then (0, ts) else (0, ts\<lparr>prepared := False\<rparr>))"

definition rpi_touchscreen_prepare :: "rpi_touchscreen \<Rightarrow> int \<times> rpi_touchscreen" where
  "rpi_touchscreen_prepare ts =
     (if prepared ts then (0, ts) else (0, ts\<lparr>prepared := True\<rparr>))"

definition rpi_touchscreen_enable :: "rpi_touchscreen \<Rightarrow> int \<times> rpi_touchscreen" where
  "rpi_touchscreen_enable ts =
     (if enabled ts then (0, ts)
      else
        let ts = (case backlight ts of
                    None \<Rightarrow> ts
                  | Some bl \<Rightarrow>
                      ts\<lparr>backlight := Some (snd (backlight_update_status
                                                 (bl\<lparr>props_power := FB_BLANK_UNBLANK\<rparr>)))\<rparr>)
        in (0, ts\<lparr>enabled := True\<rparr>))"

text \<open>
  The lifecycle entries of the dispatch table \<^verbatim>\<open>rpi_touchscreen_funcs\<close>, lines 223 to
  229, in the table's order.
\<close>

datatype panel_op = Disable | Unprepare | Prepare | Enable

fun rpi_touchscreen_funcs :: "panel_op \<Rightarrow> rpi_touchscreen \<Rightarrow> int \<times> rpi_touchscreen" where
  "rpi_touchscreen_funcs Disable = rpi_touchscreen_disable"
| "rpi_touchscreen_funcs Unprepare = rpi_touchscreen_unprepare"
| "rpi_touchscreen_funcs Prepare = rpi_touchscreen_prepare"
| "rpi_touchscreen_funcs Enable = rpi_touchscreen_enable"

text \<open>
  A caller driving the panel through a sequence of lifecycle calls: the states of the
  panel after each call, in order.
\<close>

fun panel_calls :: "rpi_touchscreen \<Rightarrow> panel_op list \<Rightarrow> rpi_touchscreen list" where
  "panel_calls ts [] = []"
| "panel_calls ts (opn # ops) =
     (let ts' = snd (rpi_touchscreen_funcs opn ts) in ts' # panel_calls ts' ops)"

text \<open>
  The call order the DRM core keeps: enable is called on a prepared panel only, and
  unprepare on a disabled panel only.
\<close>

fun ordered_calls :: "rpi_touchscreen \<Rightarrow> panel_op list \<Rightarrow> bool" where
  "ordered_calls ts [] = True"
| "ordered_calls ts (opn # ops) =
     ((if opn = Enable then prepared ts else if opn = Unprepare then \<not> enabled ts else True)
      \<and> ordered_calls (snd (rpi_touchscreen_funcs opn ts)) ops)"

subsection \<open>Display modes and their enumeration\<close>

text \<open>
  \<^verbatim>\<open>struct drm_display_mode\<close>, reduced to the fields the driver's table sets and the
  two the enumeration writes, \<^verbatim>\<open>type\<close> and \<^verbatim>\<open>name\<close>.
\<close>

record drm_display_mode =
  clock :: int
  hdisplay :: int
  hsync_start :: int
  hsync_end :: int
  htotal :: int
  vdisplay :: int
  vsync_start :: int
  vsync_end :: int
  vtotal :: int
  vrefresh :: int
  mode_type :: "32 word"
  mode_name :: string

text \<open>
  The static table \<^verbatim>\<open>rpi_touchscreen_modes\<close>, lines 75 to 92. The fields the
  initialiser leaves out are zero in C.
\<close>

definition rpi_touchscreen_modes :: "drm_display_mode list" where
  "rpi_touchscreen_modes =
     [\<lparr>clock = 83333,
       hdisplay = 800,
       hsync_start = 800 + 61,
       hsync_end = 800 + 61 + 2,
       htotal = 800 + 61 + 2 + 44,
       vdisplay = 480,
       vsync_start = 480 + 7,
       vsync_end = 480 + 7 + 2,
       vtotal = 480 + 7 + 2 + 21,
       vrefresh = 60,
       mode_type = 0,
       mode_name = []\<rparr>]"

record drm_display_info =
  bpc :: nat
  width_mm :: nat
  height_mm :: nat

text \<open>
  \<^verbatim>\<open>struct drm_connector\<close>: the list of probed modes and the display information.
\<close>

record drm_connector =
  probed_modes :: "drm_display_mode list"
  display_info :: drm_display_info

text \<open>
  \<^verbatim>\<open>struct drm_device\<close> as the allocator behind \<^verbatim>\<open>drm_mode_duplicate\<close>:
  \<open>alloc_ok k\<close> tells whether the allocation of call number \<open>k\<close> succeeds, and
  \<open>dup_calls\<close> counts the calls made so far.
\<close>

record drm_device =
  alloc_ok :: "nat \<Rightarrow> bool"
  dup_calls :: nat

text \<open>
  \<^verbatim>\<open>struct drm_panel\<close> with the two pointers the enumeration follows, each modelled
  by the object it points to: the panel is attached to a connector of a DRM device.
\<close>

record drm_panel =
  connector :: drm_connector
  drm :: drm_device

text \<open>
  Modelled from the spec: \<^verbatim>\<open>drm_mode_duplicate\<close> is a function of the DRM core, not
  part of the driver's file. The spec calls it the step that materializes a mode and
  can fail by allocation failure; on success the new mode is a copy of the table's.
\<close>

definition drm_mode_duplicate ::
  "drm_device \<Rightarrow> drm_display_mode \<Rightarrow> drm_display_mode option \<times> drm_device" where
  "drm_mode_duplicate dev m =
     (if alloc_ok dev (dup_calls dev) then Some m else None,
      dev\<lparr>dup_calls := dup_calls dev + 1\<rparr>)"

text \<open>
  Modelled from the spec: \<^verbatim>\<open>drm_mode_set_name\<close> is a function of the DRM core, not
  part of the driver's file, and the spec does not say how a mode is named. The text
  of the name is the parameter \<open>name_of\<close>; the function writes no other field.
\<close>

definition drm_mode_set_name ::
  "(drm_display_mode \<Rightarrow> string) \<Rightarrow> drm_display_mode \<Rightarrow> drm_display_mode" where
  "drm_mode_set_name name_of mode = mode\<lparr>mode_name := name_of mode\<rparr>"

text \<open>
  Modelled from the spec: \<^verbatim>\<open>drm_mode_probed_add\<close> is a function of the DRM core, not
  part of the driver's file. The produced mode joins the end of the connector's list.
\<close>

definition drm_mode_probed_add :: "drm_connector \<Rightarrow> drm_display_mode \<Rightarrow> drm_connector" where
  "drm_mode_probed_add conn mode = conn\<lparr>probed_modes := probed_modes conn @ [mode]\<rparr>"

text \<open>
  The loop of \<^verbatim>\<open>rpi_touchscreen_get_modes\<close>, lines 179 to 199, over the entries of
  the table from index \<open>i\<close> on. The counters \<^verbatim>\<open>i\<close> and \<^verbatim>\<open>num\<close> are
  \<^verbatim>\<open>unsigned int\<close> in C; neither exceeds the number of entries of a static array,
  so neither can wrap, and they are natural numbers here. The \<^verbatim>\<open>dev_err\<close> of the
  failure branch writes to the kernel log only.
\<close>

fun get_modes_loop ::
  "(drm_display_mode \<Rightarrow> string) \<Rightarrow> drm_display_mode list \<Rightarrow> nat \<Rightarrow> nat \<Rightarrow> drm_panel
     \<Rightarrow> nat \<times> drm_panel" where
  "get_modes_loop name_of [] i num panel = (num, panel)"
| "get_modes_loop name_of (m # ms) i num panel =
     (case drm_mode_duplicate (drm panel) m of
        (None, dev) \<Rightarrow> get_modes_loop name_of ms (i + 1) num (panel\<lparr>drm := dev\<rparr>)
      | (Some mode, dev) \<Rightarrow>
          let mode = mode\<lparr>mode_type := mode_type mode OR DRM_MODE_TYPE_DRIVER\<rparr>;
              mode = (if i = 0
                      then mode\<lparr>mode_type := mode_type mode OR DRM_MODE_TYPE_PREFERRED\<rparr>
                      else mode);
              mode = drm_mode_set_name name_of mode;
              conn = drm_mode_probed_add (connector panel) mode
          in get_modes_loop name_of ms (i + 1) (num + 1)
               (panel\<lparr>drm := dev, connector := conn\<rparr>))"

text \<open>
  \<^verbatim>\<open>rpi_touchscreen_get_modes\<close>, lines 173 to 206, over a table given as an argument,
  and then over the driver's own table.
\<close>

definition get_modes_of ::
  "(drm_display_mode \<Rightarrow> string) \<Rightarrow> drm_display_mode list \<Rightarrow> drm_panel \<Rightarrow> int \<times> drm_panel" where
  "get_modes_of name_of table panel =
     (case get_modes_loop name_of table 0 0 panel of
        (num, panel) \<Rightarrow>
          let conn = connector panel;
              conn = conn\<lparr>display_info := (display_info conn)\<lparr>bpc := 8\<rparr>\<rparr>;
              conn = conn\<lparr>display_info := (display_info conn)\<lparr>width_mm := 217\<rparr>\<rparr>;
              conn = conn\<lparr>display_info := (display_info conn)\<lparr>height_mm := 136\<rparr>\<rparr>
          in (int num, panel\<lparr>connector := conn\<rparr>))"

definition rpi_touchscreen_get_modes ::
  "(drm_display_mode \<Rightarrow> string) \<Rightarrow> drm_panel \<Rightarrow> int \<times> drm_panel" where
  "rpi_touchscreen_get_modes name_of panel = get_modes_of name_of rpi_touchscreen_modes panel"

subsection \<open>Probing\<close>

text \<open>
  What the probe function asks of the kernel around it, each answer under the name of
  the kernel function that gives it: whether \<^verbatim>\<open>devm_kzalloc\<close> returns memory, the
  device-tree node a property of the device's node refers to, the I2C client registered
  for a node, and the return values of \<^verbatim>\<open>drm_panel_add\<close> and \<^verbatim>\<open>mipi_dsi_attach\<close>.
  Device-tree nodes and I2C clients are numbered; reference counts are not modelled.
\<close>

record probe_env =
  devm_kzalloc_ok :: bool
  of_parse_phandle :: "string \<Rightarrow> nat option"
  of_find_i2c_device_by_node :: "nat \<Rightarrow> nat option"
  drm_panel_add :: int
  mipi_dsi_attach :: int

text \<open>
  \<^verbatim>\<open>rpi_touchscreen_get_i2c\<close>, lines 231 to 246.
\<close>

definition rpi_touchscreen_get_i2c :: "probe_env \<Rightarrow> string \<Rightarrow> i2c_client_ptr" where
  "rpi_touchscreen_get_i2c env name =
     (case of_parse_phandle env name of
        None \<Rightarrow> ERR_PTR (- ENODEV)
      | Some node \<Rightarrow>
          (case of_find_i2c_device_by_node env node of
             None \<Rightarrow> NULL
           | Some client \<Rightarrow> Client client))"

text \<open>
  \<^verbatim>\<open>struct mipi_dsi_device\<close>: the three link settings the probe writes and the driver
  data attached to the device. The flag word \<^verbatim>\<open>mode_flags\<close> is the set of the flags
  that are set in it.
\<close>

datatype mipi_dsi_mode_flag = MIPI_DSI_MODE_VIDEO | MIPI_DSI_MODE_VIDEO_SYNC_PULSE

datatype mipi_dsi_pixel_format = MIPI_DSI_FMT_UNSET | MIPI_DSI_FMT_RGB888

record mipi_dsi_device =
  mode_flags :: "mipi_dsi_mode_flag set"
  format :: mipi_dsi_pixel_format
  lanes :: nat
  drvdata :: "rpi_touchscreen option"

text \<open>
  \<^verbatim>\<open>rpi_touchscreen_dsi_probe\<close>, lines 248 to 301. \<^verbatim>\<open>devm_kzalloc\<close> returns zeroed
  memory, so the new panel starts with both flags false and no backlight; the backlight
  registration is compiled out (\<^verbatim>\<open>#if 0\<close>).
\<close>

definition rpi_touchscreen_dsi_probe ::
  "probe_env \<Rightarrow> mipi_dsi_device \<Rightarrow> int \<times> mipi_dsi_device" where
  "rpi_touchscreen_dsi_probe env dsi =
     (if \<not> devm_kzalloc_ok env then (- ENOMEM, dsi)
      else
        let ts = \<lparr>bridge_i2c = NULL, backlight = None, prepared = False, enabled = False\<rparr>;
            dsi = dsi\<lparr>mode_flags := {MIPI_DSI_MODE_VIDEO, MIPI_DSI_MODE_VIDEO_SYNC_PULSE},
                      format := MIPI_DSI_FMT_RGB888,
                      lanes := 1\<rparr>;
            ts = ts\<lparr>bridge_i2c :=
                      rpi_touchscreen_get_i2c env ''raspberrypi,touchscreen-bridge''\<rparr>;
            dsi = dsi\<lparr>drvdata := Some ts\<rparr>
        in if bridge_i2c ts = NULL then (- EPROBE_DEFER, dsi)
           else
             let ret = drm_panel_add env
             in if ret < 0 then (ret, dsi) else (mipi_dsi_attach env, dsi))"

subsection \<open>Statement vocabulary and example inputs\<close>

text \<open>
  The mode the enumeration adds to the connector for entry \<open>i\<close> of a table, written
  as one expression, and the indices of the entries whose duplication succeeds when the
  enumeration of a table of \<open>n\<close> entries starts on the device \<open>dev\<close>.
\<close>

definition added_mode ::
  "(drm_display_mode \<Rightarrow> string) \<Rightarrow> nat \<Rightarrow> drm_display_mode \<Rightarrow> drm_display_mode" where
  "added_mode name_of i m =
     drm_mode_set_name name_of
       (m\<lparr>mode_type := mode_type m OR DRM_MODE_TYPE_DRIVER OR
                          (if i = 0 then DRM_MODE_TYPE_PREFERRED else 0)\<rparr>)"

definition duplicated_entries :: "drm_device \<Rightarrow> nat \<Rightarrow> nat list" where
  "duplicated_entries dev n = filter (\<lambda>k. alloc_ok dev (dup_calls dev + k)) [0..<n]"

text \<open>Concrete inputs for the examples below.\<close>

definition example_backlight :: backlight_device where
  "example_backlight =
     \<lparr>props_brightness = 200, props_power = FB_BLANK_POWERDOWN, props_state = 0,
      update_status_calls = 0\<rparr>"

definition example_ts :: "backlight_device option \<Rightarrow> bool \<Rightarrow> bool \<Rightarrow> rpi_touchscreen" where
  "example_ts bl p e = \<lparr>bridge_i2c = Client 0, backlight = bl, prepared = p, enabled = e\<rparr>"

definition example_panel :: "(nat \<Rightarrow> bool) \<Rightarrow> drm_panel" where
  "example_panel ok =
     \<lparr>connector = \<lparr>probed_modes = [],
                    display_info = \<lparr>bpc = 0, width_mm = 0, height_mm = 0\<rparr>\<rparr>,
      drm = \<lparr>alloc_ok = ok, dup_calls = 0\<rparr>\<rparr>"

definition always_ok :: "nat \<Rightarrow> bool" where
  "always_ok k = True"

definition all_but_second :: "nat \<Rightarrow> bool" where
  "all_but_second k = (k \<noteq> 1)"

definition example_name :: "drm_display_mode \<Rightarrow> string" where
  "example_name m = ''800x480''"

definition example_table :: "drm_display_mode list" where
  "example_table =
     rpi_touchscreen_modes @ map (\<lambda>m. m\<lparr>vrefresh := 50\<rparr>) rpi_touchscreen_modes
       @ map (\<lambda>m. m\<lparr>vrefresh := 30\<rparr>) rpi_touchscreen_modes"

definition example_dsi :: mipi_dsi_device where
  "example_dsi = \<lparr>mode_flags = {}, format = MIPI_DSI_FMT_UNSET, lanes = 0, drvdata = None\<rparr>"

definition example_env :: "(string \<Rightarrow> nat option) \<Rightarrow> (nat \<Rightarrow> nat option) \<Rightarrow> probe_env" where
  "example_env phandle client =
     \<lparr>devm_kzalloc_ok = True, of_parse_phandle = phandle,
      of_find_i2c_device_by_node = client, drm_panel_add = 0, mipi_dsi_attach = 0\<rparr>"

section \<open>Properties of the lifecycle callbacks\<close>

lemmas lifecycle_defs =
  rpi_touchscreen_disable_def rpi_touchscreen_unprepare_def
  rpi_touchscreen_prepare_def rpi_touchscreen_enable_def

lemma backlight_update_status_eq:
  "backlight_update_status bd =
     (0, bd\<lparr>update_status_calls := update_status_calls bd + 1\<rparr>)"
  by (simp add: backlight_update_status_def rpi_touchscreen_backlight_update_def
      rpi_touchscreen_backlight_update_body_def Let_def)

text \<open>
  One call keeps the invariant when the caller keeps the order: enable only on a
  prepared panel, unprepare only on a disabled one.
\<close>

lemma ordered_call_keeps_invariant:
  assumes "enabled ts \<longrightarrow> prepared ts"
    and "opn = Enable \<longrightarrow> prepared ts"
    and "opn = Unprepare \<longrightarrow> \<not> enabled ts"
  shows "enabled (snd (rpi_touchscreen_funcs opn ts)) \<longrightarrow>
         prepared (snd (rpi_touchscreen_funcs opn ts))"
  using assms by (cases opn) (auto simp add: lifecycle_defs Let_def split: option.splits)

lemma ordered_calls_keep_invariant:
  "enabled ts \<longrightarrow> prepared ts \<Longrightarrow> ordered_calls ts ops \<Longrightarrow>
   \<forall>s \<in> set (panel_calls ts ops). enabled s \<longrightarrow> prepared s"
proof (induction ops arbitrary: ts)
  case Nil
  then show ?case by simp
next
  case (Cons opn ops)
  let ?ts' = "snd (rpi_touchscreen_funcs opn ts)"
  from Cons.prems have step: "enabled ?ts' \<longrightarrow> prepared ?ts'"
    by (intro ordered_call_keeps_invariant) (auto split: if_splits)
  from Cons.prems have "ordered_calls ?ts' ops"
    by simp
  with Cons.IH step have "\<forall>s \<in> set (panel_calls ?ts' ops). enabled s \<longrightarrow> prepared s"
    by blast
  with step show ?case
    by (simp add: Let_def)
qed

text \<open>
  C1, as the driver has it. Starting from the initial state (not prepared, not enabled),
  the invariant "enabled implies prepared" holds after every call of every sequence of
  lifecycle calls in which enable is called only on a prepared panel and unprepare only
  on a disabled panel. The callbacks themselves do not check the other flag.
\<close>

theorem invariant_under_ordered_calls:
  assumes "\<not> prepared ts" and "\<not> enabled ts" and "ordered_calls ts ops"
  shows "\<forall>s \<in> set (panel_calls ts ops). enabled s \<longrightarrow> prepared s"
  using assms by (intro ordered_calls_keep_invariant) simp_all

theorem invariant_under_ordered_calls_witness:
  "\<not> prepared (example_ts None False False) \<and> \<not> enabled (example_ts None False False) \<and>
   ordered_calls (example_ts None False False) [Prepare, Enable, Disable, Unprepare] \<and>
   list_all (\<lambda>s. enabled s \<longrightarrow> prepared s)
     (panel_calls (example_ts None False False) [Prepare, Enable, Disable, Unprepare])"
  using invariant_under_ordered_calls
    [of "example_ts None False False" "[Prepare, Enable, Disable, Unprepare]"]
  by (simp add: example_ts_def lifecycle_defs list_all_iff)

text \<open>
  C1, as it is stated, fails: a single enable call on the initial state leaves the panel
  enabled and not prepared.
\<close>

theorem invariant_broken_by_enable:
  "panel_calls (example_ts None False False) [Enable] = [example_ts None False True] \<and>
   enabled (example_ts None False True) \<and> \<not> prepared (example_ts None False True)"
  by (simp add: example_ts_def rpi_touchscreen_enable_def)

text \<open>
  C2. Each lifecycle callback called on a panel already in its target state returns 0
  and leaves the whole panel state, the backlight device included, as it was. Prepare
  called a second time returns 0 and changes nothing; the panel is prepared after the
  first call and prepare never touches the backlight.
\<close>

theorem lifecycle_idempotent:
  "(prepared a \<longrightarrow> rpi_touchscreen_prepare a = (0, a)) \<and>
   (enabled b \<longrightarrow> rpi_touchscreen_enable b = (0, b)) \<and>
   (\<not> enabled c \<longrightarrow> rpi_touchscreen_disable c = (0, c)) \<and>
   (\<not> prepared d \<longrightarrow> rpi_touchscreen_unprepare d = (0, d)) \<and>
   prepared (snd (rpi_touchscreen_prepare e)) \<and>
   rpi_touchscreen_prepare (snd (rpi_touchscreen_prepare e)) =
     (0, snd (rpi_touchscreen_prepare e)) \<and>
   backlight (snd (rpi_touchscreen_prepare e)) = backlight e"
  by (simp add: lifecycle_defs)

theorem lifecycle_idempotent_witness:
  "prepared (example_ts (Some example_backlight) True False) \<and>
   rpi_touchscreen_prepare (example_ts (Some example_backlight) True False) =
     (0, example_ts (Some example_backlight) True False) \<and>
   enabled (example_ts (Some example_backlight) True True) \<and>
   rpi_touchscreen_enable (example_ts (Some example_backlight) True True) =
     (0, example_ts (Some example_backlight) True True) \<and>
   \<not> enabled (example_ts (Some example_backlight) True False) \<and>
   rpi_touchscreen_disable (example_ts (Some example_backlight) True False) =
     (0, example_ts (Some example_backlight) True False) \<and>
   \<not> prepared (example_ts (Some example_backlight) False False) \<and>
   rpi_touchscreen_unprepare (example_ts (Some example_backlight) False False) =
     (0, example_ts (Some example_backlight) False False) \<and>
   rpi_touchscreen_prepare
     (snd (rpi_touchscreen_prepare (example_ts (Some example_backlight) False False))) =
     (0, example_ts (Some example_backlight) True False)"
  using lifecycle_idempotent
    [of "example_ts (Some example_backlight) True False"
        "example_ts (Some example_backlight) True True"
        "example_ts (Some example_backlight) True False"
        "example_ts (Some example_backlight) False False"
        "example_ts (Some example_backlight) False False"]
  by (simp add: example_ts_def rpi_touchscreen_prepare_def)

text \<open>
  C3. Enable on a panel that is not enabled returns 0 and sets the enabled flag. With a
  backlight attached it sets the device's power field to the "on" value and requests
  one status refresh; with none attached there is no backlight afterwards either.
  Nothing else of the panel changes.
\<close>

theorem enable_effect:
  assumes "\<not> enabled ts"
  shows "rpi_touchscreen_enable ts =
    (0, ts\<lparr>backlight :=
             (case backlight ts of
                None \<Rightarrow> None
              | Some bl \<Rightarrow>
                  Some (bl\<lparr>props_power := FB_BLANK_UNBLANK,
                           update_status_calls := update_status_calls bl + 1\<rparr>)),
           enabled := True\<rparr>)"
  using assms
  by (simp add: rpi_touchscreen_enable_def backlight_update_status_eq split: option.splits)

theorem enable_effect_witness:
  "\<not> enabled (example_ts (Some example_backlight) True False) \<and>
   rpi_touchscreen_enable (example_ts (Some example_backlight) True False) =
     (0, example_ts
           (Some (example_backlight\<lparr>props_power := FB_BLANK_UNBLANK,
                                     update_status_calls := 1\<rparr>)) True True) \<and>
   \<not> enabled (example_ts None True False) \<and>
   rpi_touchscreen_enable (example_ts None True False) = (0, example_ts None True True)"
  using enable_effect [of "example_ts (Some example_backlight) True False"]
    enable_effect [of "example_ts None True False"]
  by (simp add: example_ts_def example_backlight_def)

text \<open>
  C4. From every panel state with a backlight attached, enable followed at once by
  disable leaves the panel not enabled and the backlight's power field at the
  powered-down value.
\<close>

theorem enable_then_disable:
  assumes "backlight ts = Some bl"
  shows "\<not> enabled (snd (rpi_touchscreen_disable (snd (rpi_touchscreen_enable ts)))) \<and>
    map_option props_power
      (backlight (snd (rpi_touchscreen_disable (snd (rpi_touchscreen_enable ts))))) =
      Some FB_BLANK_POWERDOWN"
  using assms by (simp add: lifecycle_defs backlight_update_status_eq Let_def)

theorem enable_then_disable_witness:
  "backlight (example_ts (Some example_backlight) True False) = Some example_backlight \<and>
   snd (rpi_touchscreen_disable
          (snd (rpi_touchscreen_enable (example_ts (Some example_backlight) True False)))) =
     example_ts (Some (example_backlight\<lparr>update_status_calls := 2\<rparr>)) True False"
  using enable_then_disable
    [of "example_ts (Some example_backlight) True False" example_backlight]
  by (simp add: example_ts_def example_backlight_def lifecycle_defs
      backlight_update_status_eq)

text \<open>
  C7. Each of the four lifecycle callbacks, called directly or through the dispatch
  table, returns 0, the success status, in every panel state.
\<close>

theorem lifecycle_returns_success:
  "fst (rpi_touchscreen_prepare ts) = 0 \<and> fst (rpi_touchscreen_enable ts) = 0 \<and>
   fst (rpi_touchscreen_disable ts) = 0 \<and> fst (rpi_touchscreen_unprepare ts) = 0 \<and>
   fst (rpi_touchscreen_funcs opn ts) = 0"
  by (cases opn) (simp_all add: lifecycle_defs Let_def)

section \<open>Properties of the backlight status callback\<close>

lemma backlight_flag_bits:
  "(w :: 32 word) AND (BL_CORE_SUSPENDED OR BL_CORE_FBBLANK) \<noteq> 0 \<longleftrightarrow> bit w 0 \<or> bit w 1"
proof -
  have "BL_CORE_SUSPENDED OR BL_CORE_FBBLANK = mask 2"
    by (simp add: BL_CORE_SUSPENDED_def BL_CORE_FBBLANK_def mask_eq_exp_minus_1)
  moreover have "w AND mask 2 = 0 \<longleftrightarrow> (\<forall>n<32. \<not> (bit w n \<and> n < 2))"
    by (auto simp add: bit_eq_iff bit_simps)
  moreover have "(\<forall>n<32. \<not> (bit w n \<and> n < 2)) \<longleftrightarrow> \<not> (bit w 0 \<or> bit w 1)"
  proof
    assume low: "\<forall>n<32. \<not> (bit w n \<and> n < 2)"
    from low have "\<not> (bit w 0 \<and> (0::nat) < 2)"
      by (rule allE [of _ 0]) simp
    moreover from low have "\<not> (bit w 1 \<and> (1::nat) < 2)"
      by (rule allE [of _ 1]) simp
    ultimately show "\<not> (bit w 0 \<or> bit w 1)"
      by simp
  next
    assume clear: "\<not> (bit w 0 \<or> bit w 1)"
    show "\<forall>n<32. \<not> (bit w n \<and> n < 2)"
    proof (intro allI impI notI)
      fix n :: nat
      assume "bit w n \<and> n < 2"
      moreover from this have "n = 0 \<or> n = 1"
        by arith
      ultimately show False
        using clear by auto
    qed
  qed
  ultimately show ?thesis
    by simp
qed

text \<open>
  C9. The brightness the status callback computes depends on the backlight device
  alone and the device is left as it was: the value is 0 when the power field is not
  the "on" value or the suspended bit or the blanked bit of the state is set, and the
  requested brightness otherwise.
\<close>

theorem effective_brightness:
  "snd (snd (rpi_touchscreen_backlight_update_body bl)) =
     (if props_power bl \<noteq> FB_BLANK_UNBLANK \<or> bit (props_state bl) 0 \<or> bit (props_state bl) 1
      then 0 else props_brightness bl) \<and>
   fst (snd (rpi_touchscreen_backlight_update_body bl)) = bl"
  by (simp add: rpi_touchscreen_backlight_update_body_def backlight_flag_bits)

theorem effective_brightness_witness:
  "snd (snd (rpi_touchscreen_backlight_update_body
               (example_backlight\<lparr>props_power := FB_BLANK_UNBLANK\<rparr>))) = 200 \<and>
   snd (snd (rpi_touchscreen_backlight_update_body example_backlight)) = 0 \<and>
   snd (snd (rpi_touchscreen_backlight_update_body
               (example_backlight\<lparr>props_power := FB_BLANK_UNBLANK,
                                  props_state := BL_CORE_SUSPENDED\<rparr>))) = 0"
  using effective_brightness [of "example_backlight\<lparr>props_power := FB_BLANK_UNBLANK\<rparr>"]
    effective_brightness [of example_backlight]
    effective_brightness
      [of "example_backlight\<lparr>props_power := FB_BLANK_UNBLANK, props_state := BL_CORE_SUSPENDED\<rparr>"]
  by (simp add: example_backlight_def FB_BLANK_UNBLANK_def FB_BLANK_POWERDOWN_def
      BL_CORE_SUSPENDED_def)

text \<open>
  C10. In every backlight state the status callback returns 0 and hands the device
  back unchanged: the brightness it computes stays in its local variable.
\<close>

theorem backlight_update_discards_brightness:
  "rpi_touchscreen_backlight_update bl = (0, bl)"
  by (simp add: rpi_touchscreen_backlight_update_def
      rpi_touchscreen_backlight_update_body_def Let_def)

theorem backlight_update_discards_brightness_witness:
  "snd (snd (rpi_touchscreen_backlight_update_body
               (example_backlight\<lparr>props_power := FB_BLANK_UNBLANK\<rparr>))) = 200 \<and>
   rpi_touchscreen_backlight_update (example_backlight\<lparr>props_power := FB_BLANK_UNBLANK\<rparr>) =
     (0, example_backlight\<lparr>props_power := FB_BLANK_UNBLANK\<rparr>)"
  using backlight_update_discards_brightness
    [of "example_backlight\<lparr>props_power := FB_BLANK_UNBLANK\<rparr>"]
  by (simp add: rpi_touchscreen_backlight_update_body_def example_backlight_def
      BL_CORE_SUSPENDED_def BL_CORE_FBBLANK_def)

section \<open>Properties of the mode enumeration\<close>

lemma upt_filter_shift:
  "filter P [0..<Suc n] =
     (if P 0 then [0] else []) @ map Suc (filter (\<lambda>k. P (Suc k)) [0..<n])"
proof -
  have "[0..<Suc n] = 0 # map Suc [0..<n]"
    by (simp add: upt_conv_Cons map_Suc_upt del: upt_Suc)
  then show ?thesis
    by (simp add: filter_map comp_def del: upt_Suc)
qed

text \<open>
  The loop in closed form, from any index, count and panel: every entry costs one
  duplication call, the count grows by the number of successful duplications, and the
  connector's list grows by their modes, in the table's order.
\<close>

lemma get_modes_loop_eq:
  "get_modes_loop name_of ms i num panel =
     (num + length (duplicated_entries (drm panel) (length ms)),
      panel\<lparr>drm := (drm panel)\<lparr>dup_calls := dup_calls (drm panel) + length ms\<rparr>,
            connector := (connector panel)\<lparr>probed_modes := probed_modes (connector panel) @
               map (\<lambda>k. added_mode name_of (i + k) (ms ! k))
                 (duplicated_entries (drm panel) (length ms))\<rparr>\<rparr>)"
proof (induction ms arbitrary: i num panel)
  case Nil
  show ?case
    by (simp add: duplicated_entries_def)
next
  case (Cons m ms)
  show ?case
  proof (cases "alloc_ok (drm panel) (dup_calls (drm panel))")
    case True
    then show ?thesis
      by (simp add: Cons.IH duplicated_entries_def drm_mode_duplicate_def
          drm_mode_probed_add_def added_mode_def upt_filter_shift Let_def comp_def
          word_bw_assocs del: upt_Suc)
  next
    case False
    then show ?thesis
      by (simp add: Cons.IH duplicated_entries_def drm_mode_duplicate_def
          upt_filter_shift comp_def del: upt_Suc)
  qed
qed

text \<open>
  C5. On the driver's one-entry table, when the duplication succeeds, the enumeration
  returns 1; the connector gains exactly one mode, the table's 800x480 at 60 Hz, with
  the preferred and the driver bits set in its type; and the display information is
  8 bits per colour channel, 217 mm wide, 136 mm high.
\<close>

theorem get_modes_single_entry:
  assumes "alloc_ok (drm panel) (dup_calls (drm panel))"
  shows "fst (rpi_touchscreen_get_modes name_of panel) = 1 \<and>
    (\<exists>mode.
       probed_modes (connector (snd (rpi_touchscreen_get_modes name_of panel))) =
         probed_modes (connector panel) @ [mode] \<and>
       mode_type mode AND DRM_MODE_TYPE_PREFERRED \<noteq> 0 \<and>
       mode_type mode AND DRM_MODE_TYPE_DRIVER \<noteq> 0 \<and>
       hdisplay mode = 800 \<and> vdisplay mode = 480 \<and> vrefresh mode = 60 \<and>
       clock mode = 83333) \<and>
    display_info (connector (snd (rpi_touchscreen_get_modes name_of panel))) =
      \<lparr>bpc = 8, width_mm = 217, height_mm = 136\<rparr>"
  using assms
  by (simp add: rpi_touchscreen_get_modes_def get_modes_of_def rpi_touchscreen_modes_def
      drm_mode_duplicate_def drm_mode_probed_add_def drm_mode_set_name_def Let_def
      DRM_MODE_TYPE_PREFERRED_def DRM_MODE_TYPE_DRIVER_def)

theorem get_modes_single_entry_witness:
  "alloc_ok (drm (example_panel always_ok)) (dup_calls (drm (example_panel always_ok))) \<and>
   fst (rpi_touchscreen_get_modes example_name (example_panel always_ok)) = 1 \<and>
   display_info (connector
       (snd (rpi_touchscreen_get_modes example_name (example_panel always_ok)))) =
     \<lparr>bpc = 8, width_mm = 217, height_mm = 136\<rparr>"
  using get_modes_single_entry [of "example_panel always_ok" example_name]
  by (simp add: example_panel_def always_ok_def)

text \<open>
  C6. For every table and every pattern of duplication failures, the enumeration
  attempts one duplication per entry of the table, whatever failed before; it returns
  the number of entries whose duplication succeeded; and the connector gains the modes
  of exactly those entries, in the table's order.
\<close>

theorem get_modes_partial_failure:
  "fst (get_modes_of name_of table panel) =
     int (length (duplicated_entries (drm panel) (length table))) \<and>
   dup_calls (drm (snd (get_modes_of name_of table panel))) =
     dup_calls (drm panel) + length table \<and>
   probed_modes (connector (snd (get_modes_of name_of table panel))) =
     probed_modes (connector panel) @
       map (\<lambda>k. added_mode name_of k (table ! k))
         (duplicated_entries (drm panel) (length table))"
  by (simp add: get_modes_of_def get_modes_loop_eq Let_def)

text \<open>
  The example of C6: three entries, the duplication of the second fails. The count is
  2, three duplications were attempted, and the first and the third mode were added.
\<close>

theorem get_modes_partial_failure_witness:
  "duplicated_entries (drm (example_panel all_but_second)) (length example_table) = [0, 2] \<and>
   fst (get_modes_of example_name example_table (example_panel all_but_second)) = 2 \<and>
   dup_calls (drm (snd (get_modes_of example_name example_table
      (example_panel all_but_second)))) = 3 \<and>
   map vrefresh (probed_modes (connector
      (snd (get_modes_of example_name example_table (example_panel all_but_second))))) =
     [60, 30]"
proof -
  have len: "length example_table = 3"
    by (simp add: example_table_def rpi_touchscreen_modes_def)
  have idx: "duplicated_entries (drm (example_panel all_but_second)) 3 = [0, 2]"
    by (simp add: duplicated_entries_def example_panel_def all_but_second_def upt_rec)
  have start: "dup_calls (drm (example_panel all_but_second)) = 0"
    "probed_modes (connector (example_panel all_but_second)) = []"
    by (simp_all add: example_panel_def)
  have entries: "vrefresh (added_mode example_name 0 (example_table ! 0)) = 60"
    "vrefresh (added_mode example_name 2 (example_table ! 2)) = 30"
    by (simp_all add: example_table_def rpi_touchscreen_modes_def added_mode_def
        drm_mode_set_name_def)
  show ?thesis
    using get_modes_partial_failure [of example_name example_table "example_panel all_but_second"]
    by (simp add: len idx start entries)
qed

section \<open>Properties of the probe function\<close>

text \<open>
  The lookup has three outcomes: an error pointer when the device's node has no such
  property, \<^verbatim>\<open>NULL\<close> when the node it names has no I2C client yet, and the client.
\<close>

lemma get_i2c_cases:
  "rpi_touchscreen_get_i2c env name =
     (if of_parse_phandle env name = None then ERR_PTR (- ENODEV)
      else if of_find_i2c_device_by_node env (the (of_parse_phandle env name)) = None then NULL
      else Client (the (of_find_i2c_device_by_node env (the (of_parse_phandle env name)))))"
  by (simp add: rpi_touchscreen_get_i2c_def split: option.splits)

text \<open>
  When the lookup returns \<^verbatim>\<open>NULL\<close>, the probe function returns \<^verbatim>\<open>-EPROBE_DEFER\<close>.
\<close>

lemma probe_defers_on_null:
  assumes "devm_kzalloc_ok env"
    and "rpi_touchscreen_get_i2c env ''raspberrypi,touchscreen-bridge'' = NULL"
  shows "fst (rpi_touchscreen_dsi_probe env dsi) = - EPROBE_DEFER"
  using assms by (simp add: rpi_touchscreen_dsi_probe_def Let_def)

text \<open>
  When the lookup returns a client and the panel registration does not fail, the probe
  function returns what the DSI attach returns.
\<close>

lemma probe_with_bridge:
  assumes "devm_kzalloc_ok env"
    and "rpi_touchscreen_get_i2c env ''raspberrypi,touchscreen-bridge'' = Client c"
    and "0 \<le> drm_panel_add env"
  shows "fst (rpi_touchscreen_dsi_probe env dsi) = mipi_dsi_attach env"
  using assms by (simp add: rpi_touchscreen_dsi_probe_def Let_def)

text \<open>
  When the lookup returns an error pointer, the probe function takes it for a client:
  it returns what the DSI attach returns and keeps the error pointer as the bridge.
\<close>

lemma probe_with_error_pointer:
  assumes "devm_kzalloc_ok env"
    and "of_parse_phandle env ''raspberrypi,touchscreen-bridge'' = None"
    and "0 \<le> drm_panel_add env"
  shows "fst (rpi_touchscreen_dsi_probe env dsi) = mipi_dsi_attach env \<and>
    map_option bridge_i2c (drvdata (snd (rpi_touchscreen_dsi_probe env dsi))) =
      Some (ERR_PTR (- ENODEV))"
  using assms by (simp add: rpi_touchscreen_dsi_probe_def rpi_touchscreen_get_i2c_def Let_def)

text \<open>
  C8 at the input where the driver departs from it. The device's node has no
  \<^verbatim>\<open>raspberrypi,touchscreen-bridge\<close> property, so the lookup does not resolve to a
  client; it returns \<^verbatim>\<open>ERR_PTR(-ENODEV)\<close>, which the probe function's test for
  \<^verbatim>\<open>NULL\<close> lets through. Construction returns 0, not \<^verbatim>\<open>-EPROBE_DEFER\<close>, and the
  panel holds the error pointer as its bridge.
\<close>

theorem probe_missing_bridge_property:
  "rpi_touchscreen_get_i2c (example_env (\<lambda>name. None) (\<lambda>node. None))
       ''raspberrypi,touchscreen-bridge'' = ERR_PTR (- ENODEV) \<and>
   fst (rpi_touchscreen_dsi_probe (example_env (\<lambda>name. None) (\<lambda>node. None)) example_dsi) = 0 \<and>
   fst (rpi_touchscreen_dsi_probe (example_env (\<lambda>name. None) (\<lambda>node. None)) example_dsi)
     \<noteq> - EPROBE_DEFER \<and>
   map_option bridge_i2c
       (drvdata (snd (rpi_touchscreen_dsi_probe (example_env (\<lambda>name. None) (\<lambda>node. None))
          example_dsi))) = Some (ERR_PTR (- ENODEV))"
  by (simp add: rpi_touchscreen_dsi_probe_def rpi_touchscreen_get_i2c_def example_env_def
      example_dsi_def EPROBE_DEFER_def Let_def)

text \<open>
  The two cases C8 describes, on concrete inputs: the node is named but has no client
  yet, and the probe function defers; the client is there, and it returns 0.
\<close>

lemma probe_defer_then_succeed:
  "fst (rpi_touchscreen_dsi_probe (example_env (\<lambda>name. Some 7) (\<lambda>node. None)) example_dsi) =
     - EPROBE_DEFER \<and>
   fst (rpi_touchscreen_dsi_probe (example_env (\<lambda>name. Some 7) (\<lambda>node. Some 3)) example_dsi) = 0"
  by (simp add: rpi_touchscreen_dsi_probe_def rpi_touchscreen_get_i2c_def example_env_def
      example_dsi_def Let_def)

end
